theory Spec2Isabelle
  imports Main "HOL-Library.Sublist"
begin

section \<open>The token server of \<^verbatim>\<open>simple-auth-server.ts\<close>\<close>

text \<open>
  The server is one request handler. It answers \<^verbatim>\<open>OPTIONS\<close> with 204, any URL that
  does not start with \<^verbatim>\<open>/auth\<close> with 404, and otherwise resolves a user identity from
  the request, builds a capability object for it and asks the Ably client for a token.

  Strings. A JavaScript string is a sequence of code units. Node decodes the request line
  and the header values as Latin-1, so every code unit of \<^verbatim>\<open>req.url\<close> and of a header
  value is below 256: a \<^typ>\<open>char\<close> is one such code unit. Values decoded from the query
  string or the body are modelled over the same range; the handler only compares their
  code units with \<^verbatim>\<open>'.'\<close> and quotes them with \<^verbatim>\<open>JSON.stringify\<close>.
\<close>

subsection \<open>String and array primitives of JavaScript used by the handler\<close>

text \<open>
  The class \<^verbatim>\<open>\s\<close> of a JavaScript regular expression (WhiteSpace and LineTerminator),
  cut to the code units below 256: TAB, LF, VT, FF, CR, SPACE and NO-BREAK SPACE.
\<close>

definition is_space :: "char \<Rightarrow> bool" where
  "is_space c = (c \<in> set [CHR 0x09, CHR 0x0A, CHR 0x0B, CHR 0x0C, CHR 0x0D, CHR 0x20, CHR 0xA0])"

definition has_whitespace :: "string \<Rightarrow> bool" where
  "has_whitespace s = list_ex is_space s"

text \<open>
  \<^verbatim>\<open>s.replace(/\s+/g, '_')\<close>: every maximal run of whitespace becomes one underscore.
\<close>

function replace_ws :: "string \<Rightarrow> string" where
  "replace_ws [] = []"
| "replace_ws (x # xs) =
     (if is_space x then CHR ''_'' # replace_ws (dropWhile is_space xs)
      else x # replace_ws xs)"
  by pat_completeness auto
termination
  by (relation "measure length") (auto simp: less_Suc_eq_le length_dropWhile_le)

text \<open>
  \<^verbatim>\<open>s.split(c)\<close> for a separator of one code unit. The result is never empty:
  \<^verbatim>\<open>''.split('.')\<close> is \<^verbatim>\<open>['']\<close>. The accumulator holds the current segment, reversed.
\<close>

fun split_from :: "char \<Rightarrow> string \<Rightarrow> string \<Rightarrow> string list" where
  "split_from c acc [] = [rev acc]"
| "split_from c acc (x # xs) =
     (if x = c then rev acc # split_from c [] xs else split_from c (x # acc) xs)"

definition str_split :: "char \<Rightarrow> string \<Rightarrow> string list" where
  "str_split c s = split_from c [] s"

text \<open>
  \<^verbatim>\<open>parts.pop()\<close>: removes the last element and returns it, \<^verbatim>\<open>undefined\<close> (here
  \<open>None\<close>) on an empty array. The second component is the array afterwards.
\<close>

definition pop :: "'a list \<Rightarrow> 'a option \<times> 'a list" where
  "pop xs = (if xs = [] then (None, []) else (Some (last xs), butlast xs))"

text \<open>\<^verbatim>\<open>parts.join(sep)\<close>; the empty array joins to the empty string.\<close>

fun join :: "string \<Rightarrow> string list \<Rightarrow> string" where
  "join sep [] = []"
| "join sep [x] = x"
| "join sep (x # y # ys) = x @ sep @ join sep (y # ys)"

text \<open>\<^verbatim>\<open>s.startsWith(p)\<close>.\<close>

definition startsWith :: "string \<Rightarrow> string \<Rightarrow> bool" where
  "startsWith s p = prefix p s"

text \<open>A string is truthy when it is defined and not empty.\<close>

definition truthy :: "string option \<Rightarrow> bool" where
  "truthy v = (case v of None \<Rightarrow> False | Some s \<Rightarrow> s \<noteq> [])"

subsection \<open>\<^verbatim>\<open>JSON.stringify\<close> on the objects the handler serialises\<close>

text \<open>
  QuoteJSONString of ECMAScript on code units below 256: the quote and the backslash are
  escaped, the control characters get their short form or \<^verbatim>\<open>\u00XX\<close> in lower-case
  hexadecimal, everything else is copied.
\<close>

definition hex_digit :: "nat \<Rightarrow> char" where
  "hex_digit n = ''0123456789abcdef'' ! (n mod 16)"

definition json_escape :: "char \<Rightarrow> string" where
  "json_escape c =
     (if c = CHR 0x22 then [CHR 0x5C, CHR 0x22]
      else if c = CHR 0x5C then [CHR 0x5C, CHR 0x5C]
      else if c = CHR 0x08 then [CHR 0x5C, CHR ''b'']
      else if c = CHR 0x0C then [CHR 0x5C, CHR ''f'']
      else if c = CHR 0x0A then [CHR 0x5C, CHR ''n'']
      else if c = CHR 0x0D then [CHR 0x5C, CHR ''r'']
      else if c = CHR 0x09 then [CHR 0x5C, CHR ''t'']
      else if (of_char c :: nat) < 32
        then [CHR 0x5C, CHR ''u'', CHR ''0'', CHR ''0'',
              hex_digit (of_char c div 16), hex_digit (of_char c)]
      else [c])"

definition json_quote :: "string \<Rightarrow> string" where
  "json_quote s = [CHR 0x22] @ concat (map json_escape s) @ [CHR 0x22]"

text \<open>An array of strings, as \<^verbatim>\<open>["publish","subscribe"]\<close>.\<close>

definition json_string_array :: "string list \<Rightarrow> string" where
  "json_string_array xs = ''['' @ join '','' (map json_quote xs) @ '']''"

text \<open>
  \<^verbatim>\<open>interface TokenCapabilities { [channelName: string]: string[] }\<close>. The object is kept
  as the list of its properties in insertion order, which is the order
  \<^verbatim>\<open>JSON.stringify\<close> writes them in (no key of the handler is an array index).
\<close>

type_synonym TokenCapabilities = "(string \<times> string list) list"

definition stringify_capabilities :: "TokenCapabilities \<Rightarrow> string" where
  "stringify_capabilities caps =
     ''{'' @ join '','' (map (\<lambda>(k, ops). json_quote k @ '':'' @ json_string_array ops) caps) @ ''}''"

text \<open>
  \<^verbatim>\<open>interface ErrorResponse { error: string; details?: string }\<close>. A property that is
  \<^verbatim>\<open>undefined\<close> is left out by \<^verbatim>\<open>JSON.stringify\<close>.
\<close>

record ErrorResponse =
  error :: string
  details :: "string option"

definition stringify_error :: "ErrorResponse \<Rightarrow> string" where
  \<open>stringify_error e =
     ''{"error":'' @ json_quote (error e) @
     (case details e of None \<Rightarrow> [] | Some d \<Rightarrow> '',"details":'' @ json_quote d) @ ''}''\<close>

subsection \<open>Requests, responses and the outside world\<close>

text \<open>
  The fields of \<^verbatim>\<open>http.IncomingMessage\<close> the handler reads. \<^verbatim>\<open>req.url\<close> is optional in
  Node's typing (\<^verbatim>\<open>req.url?.startsWith\<close>). Node lower-cases header names, so
  \<^verbatim>\<open>headers['x-user-id']\<close> is the value of the header or \<^verbatim>\<open>undefined\<close>. \<open>req_body\<close> is
  the concatenation of the chunks \<^verbatim>\<open>parseBody\<close> collects.
\<close>

record request =
  req_method :: string
  req_url :: "string option"
  x_user_id :: "string option"
  x_user_name :: "string option"
  req_body :: string

text \<open>
  What the handler writes: the status and the headers it gives to \<^verbatim>\<open>res.writeHead\<close> and
  \<^verbatim>\<open>res.setHeader\<close>, and the text it gives to \<^verbatim>\<open>res.end\<close>. For a HEAD request Node
  sends the status and the headers and leaves that text off the wire.
\<close>

record response =
  status :: nat
  res_headers :: "(string \<times> string) list"
  res_body :: string

text \<open>The object handed to \<^verbatim>\<open>ably.auth.requestToken\<close>.\<close>

record tokenRequest =
  clientId :: string
  capability :: string
  ttl :: nat

text \<open>
  A value of an object returned by \<^verbatim>\<open>querystring.parse\<close>: a string, or an array of
  strings when the key occurs more than once.
\<close>

datatype qvalue = QStr string | QArr "string list"

text \<open>
  What the handler calls and does not define: Node's \<^verbatim>\<open>querystring.parse\<close>, the Ably
  client's \<^verbatim>\<open>auth.requestToken\<close>, which either returns token details of some type
  \<open>'t\<close> or throws an error of which the handler reads \<^verbatim>\<open>message\<close> (\<open>Inl\<close> of that
  message), and \<^verbatim>\<open>JSON.stringify\<close> on those token details.
\<close>

record 't env =
  querystring_parse :: "string \<Rightarrow> (string \<rightharpoonup> qvalue)"
  requestToken :: "tokenRequest \<Rightarrow> string + 't"
  stringify_token :: "'t \<Rightarrow> string"

text \<open>
  \<^verbatim>\<open>querystring.parse(x)\<close> where \<open>x\<close> may be \<^verbatim>\<open>undefined\<close>: Node returns the empty
  object for anything that is not a string.
\<close>

definition parse_opt :: "'t env \<Rightarrow> string option \<Rightarrow> (string \<rightharpoonup> qvalue)" where
  "parse_opt e x = (case x of None \<Rightarrow> Map.empty | Some s \<Rightarrow> querystring_parse e s)"

text \<open>\<^verbatim>\<open>a || b\<close> on two property values: \<open>a\<close> when it is truthy (an array always is).\<close>

definition q_truthy :: "qvalue option \<Rightarrow> bool" where
  "q_truthy v = (case v of None \<Rightarrow> False | Some (QStr s) \<Rightarrow> s \<noteq> [] | Some (QArr xs) \<Rightarrow> True)"

definition q_or :: "qvalue option \<Rightarrow> qvalue option \<Rightarrow> qvalue option" where
  "q_or a b = (if q_truthy a then a else b)"

subsection \<open>The handler\<close>

text \<open>The three CORS headers set on every response, before any branch.\<close>

definition cors_headers :: "(string \<times> string) list" where
  "cors_headers =
     [(''Access-Control-Allow-Origin'', ''*''),
      (''Access-Control-Allow-Methods'', ''POST, GET, OPTIONS''),
      (''Access-Control-Allow-Headers'', ''Content-Type, X-User-Id, X-User-Name'')]"

text \<open>\<^verbatim>\<open>res.writeHead(code, { 'Content-Type': 'application/json' }); res.end(text)\<close>.\<close>

definition json_response :: "nat \<Rightarrow> string \<Rightarrow> response" where
  "json_response code text =
     \<lparr>status = code,
      res_headers = cors_headers @ [(''Content-Type'', ''application/json'')],
      res_body = text\<rparr>"

text \<open>
  Line 71: the client id built from the two headers,
  \<^verbatim>\<open>`${userName.replace(/\s+/g, '_')}.${userId}`\<close>.
\<close>

definition header_clientId :: "string \<Rightarrow> string \<Rightarrow> string" where
  "header_clientId userName userId = replace_ws userName @ ''.'' @ userId"

text \<open>
  Lines 82 to 84: \<^verbatim>\<open>parts = sdkClientId.split('.'); userId = parts.pop();
  userName = parts.join('.')\<close>. The result is the pair of \<open>userId\<close> and \<open>userName\<close>.
\<close>

definition parse_sdkClientId :: "string \<Rightarrow> string option \<times> string" where
  "parse_sdkClientId sdkClientId =
     (let parts = str_split CHR ''.'' sdkClientId;
          (userId, parts') = pop parts
      in (userId, join ''.'' parts'))"

text \<open>\<^verbatim>\<open>req.url.split('?')[1]\<close>: the segment after the first question mark, if any.\<close>

definition url_query :: "string \<Rightarrow> string option" where
  "url_query url = (case str_split CHR ''?'' url of _ # q # _ \<Rightarrow> Some q | _ \<Rightarrow> None)"

text \<open>
  Lines 62 to 88: the locals \<open>userId\<close>, \<open>userName\<close> and \<open>clientId\<close> (in this order) when
  the block is left. \<open>url\<close> is \<^verbatim>\<open>req.url\<close>, defined at this point. When the key
  \<^verbatim>\<open>clientId\<close> occurs more than once, \<^verbatim>\<open>sdkClientId\<close> is an array, which has no method
  \<^verbatim>\<open>split\<close>: the call throws a TypeError (\<open>Inl\<close> of its message), caught at line 121.
\<close>

type_synonym locals = "string option \<times> string option \<times> string option"

definition resolve :: "'t env \<Rightarrow> request \<Rightarrow> string \<Rightarrow> string + locals" where
  "resolve e req url =
     (if truthy (x_user_id req) then
        (let userId = the (x_user_id req);
             userName = (if truthy (x_user_name req) then the (x_user_name req) else ''Unknown'')
         in Inr (Some userId, Some userName, Some (header_clientId userName userId)))
      else
        (let queryParams = parse_opt e (url_query url);
             body = querystring_parse e (req_body req);
             sdkClientId = q_or (queryParams ''clientId'') (body ''clientId'')
         in if q_truthy sdkClientId then
              (case sdkClientId of
                 Some (QStr s) \<Rightarrow>
                   (let (userId, userName) = parse_sdkClientId s
                    in Inr (userId, Some userName, Some s))
               | _ \<Rightarrow> Inl ''sdkClientId.split is not a function'')
            else Inr (None, Some ''Unknown'', None)))"

text \<open>Lines 100 to 103: the capability object.\<close>

definition capabilities :: "string \<Rightarrow> TokenCapabilities" where
  "capabilities userId =
     [(''roomslist:'' @ userId, [''publish'', ''subscribe'', ''history'']),
      (''presence'', [''publish'', ''subscribe'', ''presence''])]"

text \<open>Lines 123 to 128: the answer of the \<^verbatim>\<open>catch\<close> block.\<close>

definition catch_response :: "string \<Rightarrow> response" where
  "catch_response message =
     json_response 500
       (stringify_error \<lparr>error = ''Failed to create token'', details = Some message\<rparr>)"

text \<open>
  Lines 61 to 129, the \<^verbatim>\<open>try\<close> block and its \<^verbatim>\<open>catch\<close>. The result is the response
  together with the token requests handed to \<^verbatim>\<open>ably.auth.requestToken\<close>, in order.
\<close>

definition auth_flow :: "'t env \<Rightarrow> request \<Rightarrow> string \<Rightarrow> response \<times> tokenRequest list" where
  "auth_flow e req url =
     (case resolve e req url of
        Inl message \<Rightarrow> (catch_response message, [])
      | Inr (userId, userName, cid) \<Rightarrow>
          if \<not> truthy userId \<or> \<not> truthy cid then
            (json_response 400
               (stringify_error \<lparr>error = ''Could not determine user identity'', details = None\<rparr>), [])
          else
            (let tokenRequest =
                   \<lparr>clientId = the cid,
                    capability = stringify_capabilities (capabilities (the userId)),
                    ttl = 3600000\<rparr>
             in case requestToken e tokenRequest of
                  Inl message \<Rightarrow> (catch_response message, [tokenRequest])
                | Inr tokenDetails \<Rightarrow>
                    (json_response 200 (stringify_token e tokenDetails), [tokenRequest])))"

text \<open>\<^verbatim>\<open>req.url?.startsWith('/auth')\<close>, which is falsy when \<^verbatim>\<open>req.url\<close> is undefined.\<close>

definition url_is_auth :: "request \<Rightarrow> bool" where
  "url_is_auth req = (case req_url req of None \<Rightarrow> False | Some u \<Rightarrow> startsWith u ''/auth'')"

text \<open>Lines 38 to 130: the whole handler.\<close>

definition handler :: "'t env \<Rightarrow> request \<Rightarrow> response \<times> tokenRequest list" where
  "handler e req =
     (if req_method req = ''OPTIONS'' then
        (\<lparr>status = 204, res_headers = cors_headers, res_body = []\<rparr>, [])
      else if \<not> url_is_auth req then
        (json_response 404 (stringify_error \<lparr>error = ''Not Found'', details = None\<rparr>), [])
      else auth_flow e req (the (req_url req)))"

subsection \<open>A concrete environment for evaluating the handler\<close>

text \<open>
  A parser that knows two inputs and returns the empty object on any other, and two
  stand-ins for the Ably client: one that grants every request, one whose key is rejected.
\<close>

definition example_parse :: "string \<Rightarrow> (string \<rightharpoonup> qvalue)" where
  "example_parse s =
     (if s = ''clientId=Jane.Doe.u1'' then [''clientId'' \<mapsto> QStr ''Jane.Doe.u1'']
      else if s = ''clientId=a&clientId=b'' then [''clientId'' \<mapsto> QArr [''a'', ''b'']]
      else Map.empty)"

definition granting_env :: "string env" where
  "granting_env =
     \<lparr>querystring_parse = example_parse,
      requestToken = (\<lambda>r. Inr (''token:'' @ clientId r)),
      stringify_token = json_quote\<rparr>"

definition rejecting_env :: "string env" where
  "rejecting_env =
     \<lparr>querystring_parse = example_parse,
      requestToken = (\<lambda>r. Inl ''Invalid key''),
      stringify_token = json_quote\<rparr>"

section \<open>Properties\<close>

subsection \<open>Strings\<close>

lemma replace_ws_no_space: "\<not> has_whitespace (replace_ws s)"
  by (induction s rule: replace_ws.induct) (auto simp: has_whitespace_def is_space_def)

lemma has_whitespace_append: "has_whitespace (a @ b) = (has_whitespace a \<or> has_whitespace b)"
  by (auto simp: has_whitespace_def list_ex_iff)

lemma dot_not_space: "\<not> has_whitespace ''.''"
  by (simp add: has_whitespace_def is_space_def)

lemma split_from_ne: "split_from c acc s \<noteq> []"
  by (induction s arbitrary: acc) auto

lemma split_from_append:
  "split_from c acc (a @ c # b) = split_from c acc a @ split_from c [] b"
  by (induction a arbitrary: acc) auto

lemma split_from_none: "c \<notin> set b \<Longrightarrow> split_from c acc b = [rev acc @ b]"
  by (induction b arbitrary: acc) auto

lemma join_Cons: "ys \<noteq> [] \<Longrightarrow> join sep (x # ys) = x @ sep @ join sep ys"
  by (cases ys) auto

lemma join_split_from: "join [c] (split_from c acc s) = rev acc @ s"
  by (induction s arbitrary: acc) (auto simp: join_Cons split_from_ne)

lemma parse_sdkClientId_dot:
  "CHR ''.'' \<notin> set u \<Longrightarrow> parse_sdkClientId (name @ ''.'' @ u) = (Some u, name)"
  by (simp add: parse_sdkClientId_def str_split_def split_from_append split_from_none pop_def
      join_split_from split_from_ne)

subsection \<open>The texts of the three error bodies\<close>

lemma not_found_text:
  \<open>stringify_error \<lparr>error = ''Not Found'', details = None\<rparr> = ''{"error":"Not Found"}''\<close>
  by (simp add: stringify_error_def json_quote_def json_escape_def)

lemma missing_text:
  \<open>stringify_error \<lparr>error = ''Could not determine user identity'', details = None\<rparr> =
     ''{"error":"Could not determine user identity"}''\<close>
  by (simp add: stringify_error_def json_quote_def json_escape_def)

lemma failed_text:
  \<open>stringify_error \<lparr>error = ''Failed to create token'', details = Some m\<rparr> =
     ''{"error":"Failed to create token","details":'' @ json_quote m @ ''}''\<close>
  by (simp add: stringify_error_def json_quote_def json_escape_def)

lemma identity_mentioned: "sublist ''identity'' ''Could not determine user identity''"
  using sublist_appendI [of "''identity''" "''Could not determine user ''" "[]"] by simp

subsection \<open>Identity resolution and the flow behind it\<close>

lemma resolve_header:
  "truthy (x_user_id req) \<Longrightarrow>
   resolve e req url =
     Inr (x_user_id req,
          Some (if truthy (x_user_name req) then the (x_user_name req) else ''Unknown''),
          Some (header_clientId
                  (if truthy (x_user_name req) then the (x_user_name req) else ''Unknown'')
                  (the (x_user_id req))))"
  by (auto simp: resolve_def truthy_def Let_def split: option.splits)

lemma resolve_sdk:
  "\<not> truthy (x_user_id req) \<Longrightarrow>
   q_or (parse_opt e (url_query url) ''clientId'') (querystring_parse e (req_body req) ''clientId'')
     = Some (QStr s) \<Longrightarrow> s \<noteq> [] \<Longrightarrow>
   resolve e req url = Inr (fst (parse_sdkClientId s), Some (snd (parse_sdkClientId s)), Some s)"
  by (simp add: resolve_def Let_def q_truthy_def split: prod.splits)

lemma resolve_nothing:
  "\<not> truthy (x_user_id req) \<Longrightarrow>
   \<not> q_truthy (parse_opt e (url_query url) ''clientId'') \<Longrightarrow>
   \<not> q_truthy (querystring_parse e (req_body req) ''clientId'') \<Longrightarrow>
   resolve e req url = Inr (None, Some ''Unknown'', None)"
  by (simp add: resolve_def Let_def q_or_def)

lemma resolve_clientId_truthy:
  "resolve e req url = Inr (uid, n, c) \<Longrightarrow> truthy uid \<Longrightarrow> truthy c"
  by (auto simp: resolve_def truthy_def Let_def header_clientId_def q_truthy_def
      split: if_splits option.splits qvalue.splits prod.splits)

lemma auth_flow_resolved:
  "resolve e req url = Inr (Some uid, n, Some cid) \<Longrightarrow> uid \<noteq> [] \<Longrightarrow> cid \<noteq> [] \<Longrightarrow>
   snd (auth_flow e req url) =
     [\<lparr>clientId = cid, capability = stringify_capabilities (capabilities uid), ttl = 3600000\<rparr>]"
  by (simp add: auth_flow_def truthy_def Let_def split: sum.splits)

lemma auth_flow_unresolved:
  "resolve e req url = Inr (uid, n, cid) \<Longrightarrow> \<not> truthy uid \<Longrightarrow>
   auth_flow e req url =
     (json_response 400
        (stringify_error \<lparr>error = ''Could not determine user identity'', details = None\<rparr>), [])"
  by (simp add: auth_flow_def)

lemma handler_auth:
  "req_method req \<noteq> ''OPTIONS'' \<Longrightarrow> req_url req = Some url \<Longrightarrow> startsWith url ''/auth'' \<Longrightarrow>
   handler e req = auth_flow e req url"
  by (simp add: handler_def url_is_auth_def)

lemma auth_flow_calls_le1: "length (snd (auth_flow e req url)) \<le> Suc 0"
  by (simp add: auth_flow_def Let_def split: sum.splits prod.splits)

lemma handler_calls_le1: "length (snd (handler e req)) \<le> Suc 0"
  by (simp add: handler_def auth_flow_calls_le1)

lemma resolve_method: "resolve e (req\<lparr>req_method := m\<rparr>) url = resolve e req url"
  by (simp add: resolve_def)

lemma auth_flow_method: "auth_flow e (req\<lparr>req_method := m\<rparr>) url = auth_flow e req url"
  by (simp add: auth_flow_def resolve_def)

lemma auth_flow_thrown:
  "resolve e req url = Inl message \<Longrightarrow> auth_flow e req url = (catch_response message, [])"
  by (simp add: auth_flow_def)

lemma auth_flow_no_identity:
  "resolve e req url = Inr (uid, n, cid) \<Longrightarrow> \<not> truthy uid \<or> \<not> truthy cid \<Longrightarrow>
   auth_flow e req url =
     (json_response 400
        (stringify_error \<lparr>error = ''Could not determine user identity'', details = None\<rparr>), [])"
  by (simp add: auth_flow_def)

lemma auth_flow_issue:
  "resolve e req url = Inr (Some uid, n, Some cid) \<Longrightarrow> uid \<noteq> [] \<Longrightarrow> cid \<noteq> [] \<Longrightarrow>
   r = \<lparr>clientId = cid, capability = stringify_capabilities (capabilities uid), ttl = 3600000\<rparr> \<Longrightarrow>
   auth_flow e req url =
     (case requestToken e r of
        Inl message \<Rightarrow> catch_response message
      | Inr tokenDetails \<Rightarrow> json_response 200 (stringify_token e tokenDetails), [r])"
  by (simp add: auth_flow_def truthy_def Let_def split: sum.splits)

lemma capabilities_text:
  \<open>stringify_capabilities (capabilities u) =
     ''{'' @ json_quote (''roomslist:'' @ u) @
     '':["publish","subscribe","history"],"presence":["publish","subscribe","presence"]}''\<close>
  by (simp add: stringify_capabilities_def capabilities_def json_string_array_def
      json_quote_def json_escape_def)

section \<open>The claims\<close>

text \<open>
  C1 (as amended). The capability object derived for a user id \<open>u\<close> has exactly two
  entries: \<^verbatim>\<open>roomslist:u\<close> with publish, subscribe and history, and \<^verbatim>\<open>presence\<close> with
  publish, subscribe and presence.
\<close>

theorem capabilities_two_entries:
  "dom (map_of (capabilities u)) = {''roomslist:'' @ u, ''presence''}
   \<and> map_of (capabilities u) (''roomslist:'' @ u) = Some [''publish'', ''subscribe'', ''history'']
   \<and> map_of (capabilities u) ''presence'' = Some [''publish'', ''subscribe'', ''presence'']"
  by (auto simp: capabilities_def split: if_splits)

theorem capabilities_two_entries_witness:
  "dom (map_of (capabilities ''u1'')) = {''roomslist:u1'', ''presence''}
   \<and> map_of (capabilities ''u1'') ''roomslist:u1'' = Some [''publish'', ''subscribe'', ''history'']"
  using capabilities_two_entries [of "''u1''"] by simp

text \<open>
  C1 (as stated) fails: for the user id \<^verbatim>\<open>u1\<close> the capability object has no entry
  \<^verbatim>\<open>profile:u1\<close>, none for \<^verbatim>\<open>*\<close>, and \<^verbatim>\<open>roomslist:u1\<close> does not grant object-publish.
\<close>

theorem capabilities_rich_counterexample:
  "map_of (capabilities ''u1'') ''profile:u1'' = None
   \<and> map_of (capabilities ''u1'') ''*'' = None
   \<and> ''object-publish'' \<notin> set (the (map_of (capabilities ''u1'') ''roomslist:u1''))"
  by (simp add: capabilities_def)

text \<open>
  C2 (as amended). The client id built from the headers contains a whitespace character
  exactly when the user id does: the display-name part is free of whitespace whatever
  the display name is, and the user id is copied unchanged.
\<close>

theorem header_clientId_whitespace:
  "has_whitespace (header_clientId userName userId) = has_whitespace userId"
proof -
  have "has_whitespace (header_clientId userName userId)
          = (has_whitespace (replace_ws userName) \<or> has_whitespace ''.'' \<or> has_whitespace userId)"
    unfolding header_clientId_def by (simp only: has_whitespace_append)
  then show ?thesis
    by (simp only: replace_ws_no_space dot_not_space simp_thms)
qed

theorem header_clientId_whitespace_witness:
  "\<not> has_whitespace (header_clientId ''John  Doe Smith'' ''test_user_123'')"
  using header_clientId_whitespace [of "''John  Doe Smith''" "''test_user_123''"]
  by (simp add: has_whitespace_def is_space_def)

text \<open>
  C2 (as stated) fails: with the headers \<^verbatim>\<open>x-user-name: Jane Doe\<close> and
  \<^verbatim>\<open>x-user-id: a b\<close> the client id of the token request is \<^verbatim>\<open>Jane_Doe.a b\<close>, which
  contains a space.
\<close>

theorem clientId_whitespace_counterexample:
  "map clientId (snd (handler granting_env
      \<lparr>req_method = ''GET'', req_url = Some ''/auth'', x_user_id = Some ''a b'',
       x_user_name = Some ''Jane Doe'', req_body = []\<rparr>)) = [''Jane_Doe.a b'']
   \<and> has_whitespace ''Jane_Doe.a b''"
  by (simp add: handler_def url_is_auth_def startsWith_def auth_flow_def resolve_def truthy_def
      header_clientId_def is_space_def granting_env_def has_whitespace_def Let_def)

text \<open>
  C3 (as amended). The client id is a function of the pair of user id and display name.
  For a user id without a dot, parsing \<open>name.userId\<close> gives back the user id as the
  segment after the last dot and \<open>name\<close> as the rest, whatever dots \<open>name\<close> contains;
  parsing the client id built from the headers gives back the user id and the display
  name with its whitespace runs replaced.
\<close>

theorem clientId_roundtrip:
  assumes "CHR ''.'' \<notin> set userId"
  shows "parse_sdkClientId (name @ ''.'' @ userId) = (Some userId, name)
    \<and> parse_sdkClientId (header_clientId displayName userId)
          = (Some userId, replace_ws displayName)
    \<and> (userId' = userId \<and> displayName' = displayName \<longrightarrow>
          header_clientId displayName' userId' = header_clientId displayName userId)"
  unfolding header_clientId_def
  using parse_sdkClientId_dot [OF assms, of name]
    parse_sdkClientId_dot [OF assms, of "replace_ws displayName"]
  by blast

theorem clientId_roundtrip_witness:
  "CHR ''.'' \<notin> set ''u1''
   \<and> parse_sdkClientId (''Jane.Q.Doe'' @ ''.'' @ ''u1'') = (Some ''u1'', ''Jane.Q.Doe'')
   \<and> parse_sdkClientId (header_clientId ''Jane Doe'' ''u1'') = (Some ''u1'', ''Jane_Doe'')"
proof -
  have h: "CHR ''.'' \<notin> set ''u1''" by simp
  show ?thesis
    using h clientId_roundtrip [OF h, of "''Jane.Q.Doe''" "''Jane Doe''"]
    by (simp add: is_space_def)
qed

text \<open>
  C3 (as stated) fails for a user id with a dot: the headers \<^verbatim>\<open>x-user-name: n\<close> and
  \<^verbatim>\<open>x-user-id: a.b\<close> give the client id \<^verbatim>\<open>n.a.b\<close>, and parsing it gives the user id
  \<^verbatim>\<open>b\<close> and the display name \<^verbatim>\<open>n.a\<close>.
\<close>

theorem clientId_roundtrip_counterexample:
  "header_clientId ''n'' ''a.b'' = ''n'' @ ''.'' @ ''a.b''
   \<and> parse_sdkClientId (''n'' @ ''.'' @ ''a.b'') = (Some ''b'', ''n.a'')
   \<and> parse_sdkClientId (''n'' @ ''.'' @ ''a.b'') \<noteq> (Some ''a.b'', ''n'')"
  by (simp add: header_clientId_def is_space_def parse_sdkClientId_def str_split_def pop_def)

text \<open>
  C4 (as amended). A request to the auth route with a non-empty user-id header and no
  display-name header (or an empty one) gets the default display name \<^verbatim>\<open>Unknown\<close>, which
  is not empty: the client id of its token request is \<^verbatim>\<open>Unknown.\<close> followed by the user
  id, so \<^verbatim>\<open>Unknown.test_user_123\<close> for the user id \<^verbatim>\<open>test_user_123\<close>.
\<close>

theorem default_display_name:
  assumes "req_method req \<noteq> ''OPTIONS''"
    and "req_url req = Some url" and "startsWith url ''/auth''"
    and "truthy (x_user_id req)" and "\<not> truthy (x_user_name req)"
  shows "map clientId (snd (handler e req)) = [''Unknown.'' @ the (x_user_id req)]"
proof -
  have r: "resolve e req url =
      Inr (x_user_id req, Some ''Unknown'', Some (header_clientId ''Unknown'' (the (x_user_id req))))"
    using resolve_header [OF assms(4), of e url] assms(5) by simp
  obtain uid where u: "x_user_id req = Some uid" "uid \<noteq> []"
    using assms(4) by (auto simp: truthy_def split: option.splits)
  have "snd (auth_flow e req url) =
      [\<lparr>clientId = header_clientId ''Unknown'' uid,
        capability = stringify_capabilities (capabilities uid), ttl = 3600000\<rparr>]"
    using r u by (intro auth_flow_resolved) (auto simp: header_clientId_def)
  then show ?thesis
    using handler_auth [OF assms(1-3), of e] u
    by (simp add: header_clientId_def is_space_def)
qed

theorem default_display_name_witness:
  "map clientId (snd (handler granting_env
      \<lparr>req_method = ''GET'', req_url = Some ''/auth'', x_user_id = Some ''test_user_123'',
       x_user_name = None, req_body = []\<rparr>)) = [''Unknown.test_user_123'']"
  using default_display_name [of
      "\<lparr>req_method = ''GET'', req_url = Some ''/auth'', x_user_id = Some ''test_user_123'',
        x_user_name = None, req_body = []\<rparr>" "''/auth''" granting_env]
  by (simp add: startsWith_def truthy_def)

text \<open>
  C4 (as stated) fails in its example: for the user id \<^verbatim>\<open>test_user_123\<close> and no name
  header the client id is \<^verbatim>\<open>Unknown.test_user_123\<close>, not \<^verbatim>\<open>Unknown_User.test_user_123\<close>.
\<close>

theorem default_display_name_counterexample:
  "map clientId (snd (handler granting_env
      \<lparr>req_method = ''GET'', req_url = Some ''/auth'', x_user_id = Some ''test_user_123'',
       x_user_name = None, req_body = []\<rparr>)) \<noteq> [''Unknown_User.test_user_123'']"
  by (simp add: handler_def url_is_auth_def startsWith_def auth_flow_def resolve_def truthy_def
      header_clientId_def is_space_def granting_env_def Let_def)

text \<open>
  C5. For every user id the capability object has the keys \<^verbatim>\<open>roomslist:<userId>\<close> and
  \<^verbatim>\<open>presence\<close>, and the operations of \<^verbatim>\<open>roomslist:<userId>\<close> include publish and
  subscribe.
\<close>

theorem capabilities_minimum:
  "''roomslist:'' @ userId \<in> dom (map_of (capabilities userId))
   \<and> ''presence'' \<in> dom (map_of (capabilities userId))
   \<and> (\<exists>ops. map_of (capabilities userId) (''roomslist:'' @ userId) = Some ops
        \<and> ''publish'' \<in> set ops \<and> ''subscribe'' \<in> set ops)"
  by (simp add: capabilities_def)

theorem capabilities_minimum_witness:
  "''roomslist:u1'' \<in> dom (map_of (capabilities ''u1''))
   \<and> ''presence'' \<in> dom (map_of (capabilities ''u1''))"
  using capabilities_minimum [of "''u1''"] by simp

text \<open>
  C6. The capability text of the token request depends on the resolved user id only: two
  requests that resolve to the same user id, whatever their display names, client ids and
  environments, send the same capability.
\<close>

theorem capability_of_userId_only:
  assumes "resolve e1 req1 url1 = Inr (uid, name1, cid1)"
    and "resolve e2 req2 url2 = Inr (uid, name2, cid2)"
  shows "map capability (snd (auth_flow e1 req1 url1))
       = map capability (snd (auth_flow e2 req2 url2))"
proof (cases "truthy uid")
  case True
  then obtain u where u: "uid = Some u" "u \<noteq> []"
    by (auto simp: truthy_def split: option.splits)
  from True assms obtain c1 c2 where c: "cid1 = Some c1" "c1 \<noteq> []" "cid2 = Some c2" "c2 \<noteq> []"
    using resolve_clientId_truthy [of e1 req1 url1 uid name1 cid1]
      resolve_clientId_truthy [of e2 req2 url2 uid name2 cid2]
    by (auto simp: truthy_def split: option.splits)
  show ?thesis
    using auth_flow_resolved [of e1 req1 url1 u name1 c1]
      auth_flow_resolved [of e2 req2 url2 u name2 c2] assms u c
    by simp
next
  case False
  then show ?thesis
    using auth_flow_unresolved [OF assms(1)] auth_flow_unresolved [OF assms(2)] by simp
qed

theorem capability_of_userId_only_witness:
  "map capability (snd (auth_flow granting_env
      \<lparr>req_method = ''GET'', req_url = Some ''/auth'', x_user_id = Some ''u1'',
       x_user_name = Some ''Jane Doe'', req_body = []\<rparr> ''/auth''))
   = map capability (snd (auth_flow rejecting_env
      \<lparr>req_method = ''POST'', req_url = Some ''/auth'', x_user_id = None,
       x_user_name = None, req_body = ''clientId=Jane.Doe.u1''\<rparr> ''/auth''))
   \<and> map capability (snd (auth_flow granting_env
      \<lparr>req_method = ''GET'', req_url = Some ''/auth'', x_user_id = Some ''u1'',
       x_user_name = Some ''Jane Doe'', req_body = []\<rparr> ''/auth'')) \<noteq> []"
proof -
  have r1: "resolve granting_env
      \<lparr>req_method = ''GET'', req_url = Some ''/auth'', x_user_id = Some ''u1'',
       x_user_name = Some ''Jane Doe'', req_body = []\<rparr> ''/auth''
      = Inr (Some ''u1'', Some ''Jane Doe'', Some ''Jane_Doe.u1'')"
    by (simp add: resolve_def truthy_def header_clientId_def is_space_def Let_def)
  have r2: "resolve rejecting_env
      \<lparr>req_method = ''POST'', req_url = Some ''/auth'', x_user_id = None,
       x_user_name = None, req_body = ''clientId=Jane.Doe.u1''\<rparr> ''/auth''
      = Inr (Some ''u1'', Some ''Jane.Doe'', Some ''Jane.Doe.u1'')"
    by (simp add: resolve_def truthy_def rejecting_env_def example_parse_def parse_opt_def
        url_query_def str_split_def q_or_def q_truthy_def parse_sdkClientId_def pop_def Let_def)
  have "map capability (snd (auth_flow granting_env
      \<lparr>req_method = ''GET'', req_url = Some ''/auth'', x_user_id = Some ''u1'',
       x_user_name = Some ''Jane Doe'', req_body = []\<rparr> ''/auth'')) \<noteq> []"
    using auth_flow_resolved [OF r1] by simp
  then show ?thesis
    using capability_of_userId_only [OF r1 r2] by simp
qed



text \<open>
  C8. A request to the auth route with no non-empty user-id header and no non-empty
  \<^verbatim>\<open>clientId\<close> in the query string or the body is answered with status 400 and the JSON
  body \<^verbatim>\<open>{"error":"Could not determine user identity"}\<close>, whose error text mentions
  identity; no token request is made.
\<close>

theorem missing_identity_400:
  assumes "req_method req \<noteq> ''OPTIONS''"
    and "req_url req = Some url" and "startsWith url ''/auth''"
    and "\<not> truthy (x_user_id req)"
    and "\<not> q_truthy (parse_opt e (url_query url) ''clientId'')"
    and "\<not> q_truthy (querystring_parse e (req_body req) ''clientId'')"
  shows \<open>handler e req =
           (json_response 400 ''{"error":"Could not determine user identity"}'', [])
         \<and> sublist ''identity'' ''Could not determine user identity''\<close>
  using handler_auth [OF assms(1-3), of e]
    auth_flow_unresolved [OF resolve_nothing [OF assms(4-6)]] identity_mentioned
  by (simp add: truthy_def missing_text)

theorem missing_identity_400_witness:
  \<open>handler granting_env
      \<lparr>req_method = ''GET'', req_url = Some ''/auth?x=1'', x_user_id = None,
       x_user_name = Some ''Test User'', req_body = []\<rparr>
   = (\<lparr>status = 400,
       res_headers = cors_headers @ [(''Content-Type'', ''application/json'')],
       res_body = ''{"error":"Could not determine user identity"}''\<rparr>, [])\<close>
  using missing_identity_400 [of
      "\<lparr>req_method = ''GET'', req_url = Some ''/auth?x=1'', x_user_id = None,
        x_user_name = Some ''Test User'', req_body = []\<rparr>" "''/auth?x=1''" granting_env]
  by (simp add: startsWith_def truthy_def q_truthy_def parse_opt_def url_query_def str_split_def
      granting_env_def example_parse_def json_response_def)

text \<open>
  C9. When the token request handed to the Ably client fails with a message, the answer
  is status 500 with the JSON body of the two fields \<^verbatim>\<open>error\<close>, which is
  \<^verbatim>\<open>Failed to create token\<close>, and \<^verbatim>\<open>details\<close>, which is that message: the failure is a
  value the handler turns into a response. No request makes more than one call to the
  Ably client, so nothing is retried.
\<close>

theorem issuance_failure_500:
  \<open>(snd (handler e req) = [r] \<and> requestToken e r = Inl message \<longrightarrow>
      fst (handler e req) =
        json_response 500
          (''{"error":"Failed to create token","details":'' @ json_quote message @ ''}''))
   \<and> length (snd (handler e req)) \<le> 1\<close>
proof -
  have "fst (auth_flow e req url) = catch_response message"
    if "snd (auth_flow e req url) = [r]" "requestToken e r = Inl message" for url
    using that by (auto simp: auth_flow_def Let_def split: sum.splits prod.splits if_splits)
  then show ?thesis
    using handler_calls_le1 [of e req]
    by (auto simp: handler_def catch_response_def failed_text)
qed

theorem issuance_failure_500_witness:
  \<open>handler rejecting_env
      \<lparr>req_method = ''GET'', req_url = Some ''/auth'', x_user_id = Some ''u1'',
       x_user_name = Some ''Jane Doe'', req_body = []\<rparr>
   = (\<lparr>status = 500,
       res_headers = cors_headers @ [(''Content-Type'', ''application/json'')],
       res_body = ''{"error":"Failed to create token","details":"Invalid key"}''\<rparr>,
      [\<lparr>clientId = ''Jane_Doe.u1'',
        capability = ''{"roomslist:u1":["publish","subscribe","history"],"presence":["publish","subscribe","presence"]}'',
        ttl = 3600000\<rparr>])\<close>
proof -
  let ?req = "\<lparr>req_method = ''GET'', req_url = Some ''/auth'', x_user_id = Some ''u1'',
       x_user_name = Some ''Jane Doe'', req_body = []\<rparr>"
  let ?r = \<open>\<lparr>clientId = ''Jane_Doe.u1'',
        capability = ''{"roomslist:u1":["publish","subscribe","history"],"presence":["publish","subscribe","presence"]}'',
        ttl = 3600000\<rparr>\<close>
  have r: "resolve rejecting_env ?req ''/auth''
      = Inr (Some ''u1'', Some ''Jane Doe'', Some ''Jane_Doe.u1'')"
    by (simp add: resolve_def truthy_def header_clientId_def is_space_def Let_def)
  have calls: "snd (handler rejecting_env ?req) = [?r]"
    using handler_auth [of ?req "''/auth''" rejecting_env] auth_flow_resolved [OF r]
    by (simp add: startsWith_def capabilities_text json_quote_def json_escape_def)
  have fails: "requestToken rejecting_env ?r = Inl ''Invalid key''"
    by (simp add: rejecting_env_def)
  have \<open>fst (handler rejecting_env ?req) =
      json_response 500
        (''{"error":"Failed to create token","details":'' @ json_quote ''Invalid key'' @ ''}'')\<close>
    using issuance_failure_500 [of rejecting_env ?req ?r "''Invalid key''"] calls fails by blast
  then show ?thesis
    using calls by (simp add: prod_eq_iff json_response_def json_quote_def json_escape_def)
qed


text \<open>
  C10. Routing looks at the prefix of the URL and not at the method. For a request whose
  method is not OPTIONS: when the URL is missing or does not start with \<^verbatim>\<open>/auth\<close>, the
  handler writes 404 with the body \<^verbatim>\<open>{"error":"Not Found"}\<close> and makes no token request;
  when the URL starts with \<^verbatim>\<open>/auth\<close>, as \<^verbatim>\<open>/authXYZ\<close> and \<^verbatim>\<open>/auth/extra\<close> do, the
  request goes through identity resolution and token issuance: an error thrown while
  resolving gives 500, a missing user id or client id gives 400, both without a token
  request, and a resolved identity gives exactly one token request, answered with 200 and
  the token details or with 500 when the Ably client fails. Identity resolution, the token
  requests and the status are the same under every other method that is not OPTIONS.
\<close>

theorem routing_by_prefix:
  assumes "req_method req \<noteq> ''OPTIONS''" and "m \<noteq> ''OPTIONS''"
  shows \<open>(req_url req = None \<or> (req_url req = Some u \<and> \<not> prefix ''/auth'' u) \<longrightarrow>
            handler e req = (json_response 404 ''{"error":"Not Found"}'', []))
       \<and> (req_url req = Some u \<and> prefix ''/auth'' u \<longrightarrow>
            (resolve e req u = Inl message \<longrightarrow>
               handler e req =
                 (json_response 500
                    (''{"error":"Failed to create token","details":'' @ json_quote message @ ''}''),
                  []))
          \<and> (resolve e req u = Inr (uid, userName, cid) \<and> (\<not> truthy uid \<or> \<not> truthy cid) \<longrightarrow>
               handler e req =
                 (json_response 400 ''{"error":"Could not determine user identity"}'', []))
          \<and> (resolve e req u = Inr (Some userId, userName, Some c) \<and> userId \<noteq> [] \<and> c \<noteq> [] \<and>
              r = \<lparr>clientId = c, capability = stringify_capabilities (capabilities userId),
                   ttl = 3600000\<rparr> \<longrightarrow>
               handler e req =
                 (case requestToken e r of
                    Inl message' \<Rightarrow>
                      json_response 500
                        (''{"error":"Failed to create token","details":'' @ json_quote message' @ ''}'')
                  | Inr tokenDetails \<Rightarrow> json_response 200 (stringify_token e tokenDetails),
                  [r]))
          \<and> resolve e (req\<lparr>req_method := m\<rparr>) u = resolve e req u
          \<and> snd (handler e (req\<lparr>req_method := m\<rparr>)) = snd (handler e req)
          \<and> status (fst (handler e (req\<lparr>req_method := m\<rparr>))) = status (fst (handler e req)))\<close>
proof -
  have nf: \<open>handler e req = (json_response 404 ''{"error":"Not Found"}'', [])\<close>
    if "req_url req = None \<or> (req_url req = Some u \<and> \<not> prefix ''/auth'' u)"
    using that assms(1)
    by (auto simp: handler_def url_is_auth_def startsWith_def not_found_text)
  have auth: "handler e req = auth_flow e req u"
    and auth': "handler e (req\<lparr>req_method := m\<rparr>) = auth_flow e req u"
    if "req_url req = Some u" "prefix ''/auth'' u"
    using that assms by (simp_all add: handler_def url_is_auth_def startsWith_def auth_flow_method)
  show ?thesis
    using nf auth auth' auth_flow_thrown [of e req u message]
      auth_flow_no_identity [of e req u uid userName cid]
      auth_flow_issue [of e req u userId userName c r]
      resolve_method [of e m req u]
    by (auto simp: catch_response_def failed_text missing_text cong: sum.case_cong)
qed

theorem routing_by_prefix_witness:
  \<open>handler granting_env
      \<lparr>req_method = ''GET'', req_url = Some ''/nope'', x_user_id = Some ''u1'',
       x_user_name = None, req_body = []\<rparr>
     = (\<lparr>status = 404,
         res_headers = cors_headers @ [(''Content-Type'', ''application/json'')],
         res_body = ''{"error":"Not Found"}''\<rparr>, [])
   \<and> handler granting_env
      \<lparr>req_method = ''PUT'', req_url = Some ''/authXYZ'', x_user_id = Some ''u1'',
       x_user_name = None, req_body = []\<rparr>
     = (\<lparr>status = 200,
         res_headers = cors_headers @ [(''Content-Type'', ''application/json'')],
         res_body = ''"token:Unknown.u1"''\<rparr>,
        [\<lparr>clientId = ''Unknown.u1'',
          capability = ''{"roomslist:u1":["publish","subscribe","history"],"presence":["publish","subscribe","presence"]}'',
          ttl = 3600000\<rparr>])
   \<and> snd (handler granting_env
      \<lparr>req_method = ''DELETE'', req_url = Some ''/authXYZ'', x_user_id = Some ''u1'',
       x_user_name = None, req_body = []\<rparr>)
     = snd (handler granting_env
      \<lparr>req_method = ''PUT'', req_url = Some ''/authXYZ'', x_user_id = Some ''u1'',
       x_user_name = None, req_body = []\<rparr>)
   \<and> handler granting_env
      \<lparr>req_method = ''DELETE'', req_url = Some ''/auth/extra'', x_user_id = None,
       x_user_name = None, req_body = []\<rparr>
     = (\<lparr>status = 400,
         res_headers = cors_headers @ [(''Content-Type'', ''application/json'')],
         res_body = ''{"error":"Could not determine user identity"}''\<rparr>, [])
   \<and> handler granting_env
      \<lparr>req_method = ''POST'', req_url = Some ''/auth'', x_user_id = None,
       x_user_name = None, req_body = ''clientId=a&clientId=b''\<rparr>
     = (\<lparr>status = 500,
         res_headers = cors_headers @ [(''Content-Type'', ''application/json'')],
         res_body = ''{"error":"Failed to create token","details":"sdkClientId.split is not a function"}''\<rparr>,
        [])\<close>
proof -
  let ?nope = "\<lparr>req_method = ''GET'', req_url = Some ''/nope'', x_user_id = Some ''u1'',
       x_user_name = None, req_body = []\<rparr>"
  let ?put = "\<lparr>req_method = ''PUT'', req_url = Some ''/authXYZ'', x_user_id = Some ''u1'',
       x_user_name = None, req_body = []\<rparr>"
  let ?del = "\<lparr>req_method = ''DELETE'', req_url = Some ''/auth/extra'', x_user_id = None,
       x_user_name = None, req_body = []\<rparr>"
  let ?post = "\<lparr>req_method = ''POST'', req_url = Some ''/auth'', x_user_id = None,
       x_user_name = None, req_body = ''clientId=a&clientId=b''\<rparr>"
  let ?r = \<open>\<lparr>clientId = ''Unknown.u1'',
       capability = ''{"roomslist:u1":["publish","subscribe","history"],"presence":["publish","subscribe","presence"]}'',
       ttl = 3600000\<rparr>\<close>
  have r_put: "resolve granting_env ?put ''/authXYZ''
      = Inr (Some ''u1'', Some ''Unknown'', Some ''Unknown.u1'')"
    by (simp add: resolve_def truthy_def header_clientId_def is_space_def Let_def)
  have r_del: "resolve granting_env ?del ''/auth/extra'' = Inr (None, Some ''Unknown'', None)"
    by (simp add: resolve_def truthy_def granting_env_def example_parse_def parse_opt_def
        url_query_def str_split_def q_or_def q_truthy_def Let_def)
  have r_post: "resolve granting_env ?post ''/auth'' = Inl ''sdkClientId.split is not a function''"
    by (simp add: resolve_def truthy_def granting_env_def example_parse_def parse_opt_def
        url_query_def str_split_def q_or_def q_truthy_def Let_def)
  let ?r' = "\<lparr>clientId = ''Unknown.u1'',
       capability = stringify_capabilities (capabilities ''u1''), ttl = 3600000\<rparr>"
  have r: "?r' = ?r"
    by (simp add: capabilities_text json_quote_def json_escape_def)
  have tok: "requestToken granting_env ?r' = Inr ''token:Unknown.u1''"
    and str: \<open>stringify_token granting_env ''token:Unknown.u1'' = ''"token:Unknown.u1"''\<close>
    by (simp_all add: granting_env_def json_quote_def json_escape_def)
  have m: "?put\<lparr>req_method := ''DELETE''\<rparr>
      = \<lparr>req_method = ''DELETE'', req_url = Some ''/authXYZ'', x_user_id = Some ''u1'',
         x_user_name = None, req_body = []\<rparr>"
    by simp
  have a: \<open>handler granting_env ?nope = (json_response 404 ''{"error":"Not Found"}'', [])\<close>
    using routing_by_prefix [of ?nope "''GET''" "''/nope''" granting_env] by simp
  have b: \<open>handler granting_env ?put = (json_response 200 ''"token:Unknown.u1"'', [?r'])\<close>
    and c: "snd (handler granting_env (?put\<lparr>req_method := ''DELETE''\<rparr>))
          = snd (handler granting_env ?put)"
    using routing_by_prefix [of ?put "''DELETE''" "''/authXYZ''" granting_env _ _ _ _
        "''u1''" "''Unknown.u1''" ?r'] r_put
    by (simp_all add: tok str)
  have d: \<open>handler granting_env ?del
      = (json_response 400 ''{"error":"Could not determine user identity"}'', [])\<close>
    using routing_by_prefix [of ?del "''GET''" "''/auth/extra''" granting_env _ None
        "Some ''Unknown''" None] r_del
    by (simp add: truthy_def)
  have e: \<open>handler granting_env ?post
      = (json_response 500
           (''{"error":"Failed to create token","details":'' @
              json_quote ''sdkClientId.split is not a function'' @ ''}''), [])\<close>
    using routing_by_prefix [of ?post "''GET''" "''/auth''" granting_env
        "''sdkClientId.split is not a function''"] r_post
    by simp
  show ?thesis
    using a b c d e m r by (simp add: json_response_def json_quote_def json_escape_def)
qed


end
